theory Spec2Isabelle
  imports Main "HOL-Library.Word" "HOL-Library.Signed_Division"
begin

unbundle bit_operations_syntax

section \<open>Go library functions used by easycert (Unix)\<close>

text \<open>
  The program builds every path with \<open>filepath.Join\<close> and prints list entries through
  \<open>filepath.Base\<close>. Both are modelled after the Go standard library on a system whose
  separator is the slash and whose volume names are empty. A Go string is a byte
  sequence: \<open>string\<close>.
\<close>

definition Separator :: char where
  "Separator = CHR ''/''"

definition IsPathSeparator :: "char \<Rightarrow> bool" where
  "IsPathSeparator c = (c = Separator)"

text \<open>
  The backtracking of \<open>Clean\<close> at a \<open>..\<close> element. The buffer keeps its bytes and only
  the write index \<open>w\<close> moves: after \<open>w--\<close> the loop goes on while \<open>w > dotdot\<close> and the
  byte at \<open>w\<close> is no separator.
\<close>

fun backtrack :: "nat \<Rightarrow> string \<Rightarrow> nat \<Rightarrow> nat" where
  "backtrack dotdot buf 0 = 0"
| "backtrack dotdot buf (Suc w) =
     (if Suc w > dotdot \<and> \<not> IsPathSeparator (buf ! Suc w)
      then backtrack dotdot buf w else Suc w)"

text \<open>
  The main loop of \<open>Clean\<close>: \<open>out\<close> is the buffer up to its write index, \<open>p\<close> the part of
  the path not read yet (\<open>path[r:]\<close>).
\<close>

function clean_loop :: "bool \<Rightarrow> nat \<Rightarrow> string \<Rightarrow> string \<Rightarrow> string" where
  "clean_loop rooted dotdot out [] = out"
| "clean_loop rooted dotdot out (c # cs) =
     (if IsPathSeparator c then clean_loop rooted dotdot out cs
      else if c = CHR ''.'' \<and> (cs = [] \<or> IsPathSeparator (hd cs))
        then clean_loop rooted dotdot out cs
      else if c = CHR ''.'' \<and> hd cs = CHR ''.''
              \<and> (tl cs = [] \<or> IsPathSeparator (hd (tl cs)))
        then (if length out > dotdot
              then clean_loop rooted dotdot
                     (take (backtrack dotdot out (length out - 1)) out) (tl cs)
              else if \<not> rooted
              then (let out' = (if length out > 0 then out @ [Separator] else out) @ ''..''
                    in clean_loop rooted (length out') out' (tl cs))
              else clean_loop rooted dotdot out (tl cs))
      else (let out' = (if rooted \<and> length out \<noteq> 1 \<or> \<not> rooted \<and> length out \<noteq> 0
                        then out @ [Separator] else out)
            in clean_loop rooted dotdot
                 (out' @ takeWhile (\<lambda>x. \<not> IsPathSeparator x) (c # cs))
                 (dropWhile (\<lambda>x. \<not> IsPathSeparator x) (c # cs))))"
  by pat_completeness auto
termination
proof (relation "measure (\<lambda>(rooted, dotdot, out, p). length p)")
  show "wf (measure (\<lambda>(rooted, dotdot, out, p). length p))"
    by simp
next
  fix rooted :: bool and dotdot :: nat and out :: string and c :: char and cs :: string
    and x :: string
  assume "\<not> IsPathSeparator c"
  then have "length (dropWhile (\<lambda>x. \<not> IsPathSeparator x) (c # cs)) \<le> length cs"
    by (simp add: length_dropWhile_le)
  then show "((rooted, dotdot,
          x @ takeWhile (\<lambda>x. \<not> IsPathSeparator x) (c # cs),
          dropWhile (\<lambda>x. \<not> IsPathSeparator x) (c # cs)),
         rooted, dotdot, out, c # cs)
        \<in> measure (\<lambda>(rooted, dotdot, out, p). length p)"
    by simp
qed (auto simp: less_Suc_eq_le intro: le_trans [OF diff_le_self])

definition Clean :: "string \<Rightarrow> string" where
  "Clean path =
     (if path = [] then ''.''
      else (let rooted = IsPathSeparator (hd path);
                out = clean_loop rooted (if rooted then 1 else 0)
                        (if rooted then [Separator] else []) (if rooted then tl path else path)
            in if length out = 0 then ''.'' else out))"

text \<open>\<open>strings.Join(elem, sep)\<close>.\<close>

fun strings_Join :: "string list \<Rightarrow> string \<Rightarrow> string" where
  "strings_Join [] sep = []"
| "strings_Join [e] sep = e"
| "strings_Join (e # es) sep = e @ sep @ strings_Join es sep"

text \<open>
  \<open>filepath.Join\<close>: the leading empty elements are skipped, the rest is joined with the
  separator and cleaned; only empty elements give the empty string.
\<close>

fun Join :: "string list \<Rightarrow> string" where
  "Join [] = []"
| "Join (e # es) = (if e \<noteq> [] then Clean (strings_Join (e # es) [Separator]) else Join es)"

text \<open>
  \<open>filepath.Base\<close>: the last element of the path, trailing separators removed first;
  \<open>.\<close> for the empty path and a single separator for a path of separators only.
\<close>

definition Base :: "string \<Rightarrow> string" where
  "Base path =
     (if path = [] then ''.''
      else (let p1 = rev (dropWhile IsPathSeparator (rev path));
                p2 = rev (takeWhile (\<lambda>x. \<not> IsPathSeparator x) (rev p1))
            in if p2 = [] then [Separator] else p2))"


text \<open>
  \<open>filepath.Split\<close> cuts the path after its last separator; \<open>cleanGlobPath\<close>,
  \<open>hasMeta\<close> and \<open>Match\<close> are the helpers of \<open>filepath.Glob\<close>. \<open>Match\<close> is modelled
  for the patterns this program uses, a star followed by literal bytes: the name ends
  with the literal and the star matches bytes that are no separator.
\<close>

definition Split :: "string \<Rightarrow> string \<times> string" where
  "Split path =
     (let file = rev (takeWhile (\<lambda>x. \<not> IsPathSeparator x) (rev path))
      in (take (length path - length file) path, file))"

definition cleanGlobPath :: "string \<Rightarrow> string" where
  "cleanGlobPath path =
     (if path = [] then ''.''
      else if path = [Separator] then path
      else take (length path - 1) path)"

definition hasMeta :: "string \<Rightarrow> bool" where
  "hasMeta path =
     (\<exists>c \<in> set path. c = CHR ''*'' \<or> c = CHR ''?'' \<or> c = CHR ''['' \<or> c = CHR 0x5C)"

definition Match_star :: "string \<Rightarrow> string \<Rightarrow> bool" where
  "Match_star lit name =
     (length lit \<le> length name
      \<and> drop (length name - length lit) name = lit
      \<and> (\<forall>c \<in> set (take (length name - length lit) name). \<not> IsPathSeparator c))"

text \<open>
  \<open>strconv.Atoi\<close>: an optional sign, then one decimal digit or more; a value outside the
  range of \<open>int\<close> is a range error. \<open>int\<close> has \<open>intSize\<close> bits.
\<close>

definition intSize :: nat where
  "intSize = 64"

datatype NumError = ErrSyntax | ErrRange

definition digit_val :: "char \<Rightarrow> nat option" where
  "digit_val ch =
     (let n = (of_char ch :: nat) in if 48 \<le> n \<and> n \<le> 57 then Some (n - 48) else None)"

fun parse_digits :: "string \<Rightarrow> int \<Rightarrow> int option" where
  "parse_digits [] n = Some n"
| "parse_digits (ch # s) n =
     (case digit_val ch of None \<Rightarrow> None | Some d \<Rightarrow> parse_digits s (n * 10 + int d))"

definition Atoi :: "string \<Rightarrow> NumError + int" where
  "Atoi s =
     (if s = [] then Inl ErrSyntax
      else (let body = (if hd s = CHR ''-'' \<or> hd s = CHR ''+'' then tl s else s)
            in if body = [] then Inl ErrSyntax
               else (case parse_digits body 0 of
                       None \<Rightarrow> Inl ErrSyntax
                     | Some n \<Rightarrow>
                         (let v = (if hd s = CHR ''-'' then - n else n)
                          in if v < - (2 ^ (intSize - 1)) \<or> 2 ^ (intSize - 1) - 1 < v
                             then Inl ErrRange else Inr v))))"

section \<open>Constants, directory and file structure\<close>

definition DIR_ROOT :: string where
  "DIR_ROOT = ''.cert''"

definition NAME_CA :: string where
  "NAME_CA = ''ca''"

definition FILE_CONFIG :: string where
  "FILE_CONFIG = ''openssl.cfg''"

definition FILE_SERVER_GO :: string where
  "FILE_SERVER_GO = ''z-cert_srv.go''"

definition FILE_CLIENT_GO :: string where
  "FILE_CLIENT_GO = ''z-cert_cl.go''"

definition DIR_CONFIG :: string where
  "DIR_CONFIG = ''github.com/kless/easycert/data''"

definition EXT_CERT :: string where
  "EXT_CERT = ''.crt''"

definition EXT_KEY :: string where
  "EXT_KEY = ''.key''"

definition EXT_REQUEST :: string where
  "EXT_REQUEST = ''.csr''"

record DirPath =
  Dir_Root :: string
  Dir_Cert :: string
  Dir_Key :: string
  Dir_Revok :: string
  Dir_NewCert :: string

record FilePath =
  File_Cmd :: string
  File_Config :: string
  File_Index :: string
  File_Serial :: string
  File_Cert :: string
  File_Key :: string
  File_Request :: string

text \<open>
  The first \<open>init\<close>: the layout below the home directory. \<open>exec.LookPath\<close> and
  \<open>user.Current\<close> are its inputs; the fields \<open>Cert\<close>, \<open>Key\<close> and \<open>Request\<close> of \<open>File\<close>
  keep the zero value.
\<close>

definition init_Dir :: "string \<Rightarrow> DirPath" where
  "init_Dir HomeDir =
     (let root = Join [HomeDir, DIR_ROOT]
      in \<lparr>Dir_Root = root,
          Dir_Cert = Join [root, ''certs''],
          Dir_Key = Join [root, ''private''],
          Dir_Revok = Join [root, ''crl''],
          Dir_NewCert = Join [root, ''newcerts'']\<rparr>)"

definition init_File :: "string \<Rightarrow> DirPath \<Rightarrow> FilePath" where
  "init_File cmdPath D =
     \<lparr>File_Cmd = cmdPath,
      File_Config = Join [Dir_Root D, FILE_CONFIG],
      File_Index = Join [Dir_Root D, ''index.txt''],
      File_Serial = Join [Dir_Root D, ''serial''],
      File_Cert = [], File_Key = [], File_Request = []\<rparr>"

section \<open>Flags\<close>

definition errMinSize :: string where
  "errMinSize = ''key size must be at least of 2048''"

definition errSize :: string where
  "errSize = ''key size must be multiple of 1024''"

datatype error = NumErr NumError | ErrorsNew string

text \<open>
  \<open>rsaSizeT.Set\<close>: the result is the returned error (\<open>None\<close> is \<open>nil\<close>) and the value
  of the receiver afterwards. Go's \<open>%\<close> truncates towards zero: \<open>smod\<close>.
\<close>

definition Set :: "int \<Rightarrow> string \<Rightarrow> error option \<times> int" where
  "Set s val =
     (case Atoi val of
        Inl err \<Rightarrow> (Some (NumErr err), s)
      | Inr i \<Rightarrow>
          if i < 2048 then (Some (ErrorsNew errMinSize), s)
          else if i smod 1024 \<noteq> 0 then (Some (ErrorsNew errSize), s)
          else (None, i))"

definition RSASize_default :: int where
  "RSASize_default = 2048"

text \<open>
  The flag package calls \<open>Set\<close> once for each occurrence of \<open>-rsa-size\<close>; this is the
  value of \<open>RSASize\<close> after the given values, none of which ended the run.
\<close>

fun Set_all :: "int \<Rightarrow> string list \<Rightarrow> int" where
  "Set_all s [] = s"
| "Set_all s (v # vs) = Set_all (snd (Set s v)) vs"

text \<open>
  The flags after \<open>flag.Parse\<close>: one field for each flag variable, \<open>NFlag\<close> the number
  of flags set on the command line and \<open>Args\<close> the positional arguments.
\<close>

record Flags =
  IsNew :: bool
  IsCA :: bool
  RSASize :: int
  Years :: int
  IsRequest :: bool
  IsSignReq :: bool
  Host :: string
  IsGoLang :: bool
  CACert :: string
  ServerCert :: string
  IsCheck :: bool
  IsCert :: bool
  IsKey :: bool
  IsCat :: bool
  IsInfo :: bool
  IsEndDate :: bool
  IsHash :: bool
  IsFullInfo :: bool
  IsIssuer :: bool
  IsName :: bool
  IsCertList :: bool
  IsReqList :: bool
  NFlag :: nat
  Args :: "string list"

text \<open>The flags of a command line without any flag: the defaults.\<close>

definition default_Flags :: Flags where
  "default_Flags =
     \<lparr>IsNew = False, IsCA = False, RSASize = RSASize_default, Years = 1,
      IsRequest = False, IsSignReq = False, Host = [], IsGoLang = False,
      CACert = NAME_CA, ServerCert = [], IsCheck = False, IsCert = False, IsKey = False,
      IsCat = False, IsInfo = False, IsEndDate = False, IsHash = False,
      IsFullInfo = False, IsIssuer = False, IsName = False, IsCertList = False,
      IsReqList = False, NFlag = 0, Args = []\<rparr>"


section \<open>The process and its environment\<close>

text \<open>
  The file system is a map from paths to nodes; a mode is an \<open>os.FileMode\<close>, with
  the permission bits written as in the source (octal \<open>0755\<close> is \<open>0x1ED\<close>).
\<close>

type_synonym FileMode = "32 word"

definition perm_0755 :: FileMode where
  "perm_0755 = 0x1ED"

definition perm_0710 :: FileMode where
  "perm_0710 = 0x1C8"

definition perm_0600 :: FileMode where
  "perm_0600 = 0x180"

definition perm_0666 :: FileMode where
  "perm_0666 = 0x1B6"

definition perm_other :: FileMode where
  "perm_other = 0x7"

datatype node = DirNode FileMode | FileNode FileMode string

type_synonym filesys = "string \<Rightarrow> node option"

text \<open>The calls into the operating system and the Go library that can fail.\<close>

datatype syscall =
    Mkdir string FileMode
  | Chmod string FileMode
  | Create string
  | OpenFile string
  | Write string string
  | Execute string
  | Close string
  | Stat string
  | ReadFile string
  | Hostname
  | Import string
  | ParseFiles string
  | GlobPattern string
  | CmdOutput string string

text \<open>
  The functions of the program that are defined outside this file. \<open>NewRequest\<close>,
  \<open>SignReq\<close> and \<open>BuildCA\<close> read the global \<open>File\<close> and the flag \<open>Years\<close>: a call
  records their values.
\<close>

datatype call =
    CheckCert string
  | CheckKey string
  | InfoCert string
  | InfoKey string
  | InfoFull string
  | InfoEndDate string
  | HashInfo string
  | InfoIssuer string
  | InfoName string
  | NewRequest FilePath int
  | SignReq FilePath int
  | BuildCA FilePath int

text \<open>
  What is printed: a format (empty for \<open>Print\<close> and \<open>log.Fatal\<close>) and the arguments, a
  string or the error of a failed call.
\<close>

datatype arg = Str string | Err syscall

datatype message = Fmt string "arg list"

text \<open>
  The trace of a run: the calls with their success, the calls of external functions
  (from \<open>main\<close>, or from inside a function of this file), the entry into a function of
  this file and the output.
\<close>

datatype func = Fn_SetupDir | Fn_Cert2Lang

datatype event =
    Sys syscall bool
  | Call call
  | Nested func call
  | Enter func
  | Stdout message
  | Stderr message

text \<open>
  How the process ends: \<open>os.Exit\<close>, \<open>log.Fatal\<close> (the message, then exit status 1), a
  run-time panic, an external function that ends the run itself, or the return of
  \<open>main\<close>.
\<close>

datatype outcome =
    Exit nat
  | Fatal message
  | Panic string
  | ExitIn call
  | Return

text \<open>
  The environment decides what the program cannot: the umask, which calls fail for a
  reason outside the model (\<open>fault\<close>), the host name, the directory of the data
  package, the text a template renders to, the entries of a directory, the constant
  templates and what the external functions do with the file system (\<open>None\<close>: the
  function ended the run).
\<close>

record env =
  umask :: FileMode
  fault :: "syscall \<Rightarrow> bool"
  hostname :: string
  pkg_dir :: string
  render :: "string \<Rightarrow> string list \<Rightarrow> string"
  readdir :: "string \<Rightarrow> string list option"
  glob_dirs :: "string \<Rightarrow> string list"
  match_other :: "string \<Rightarrow> string \<Rightarrow> bool"
  extern :: "call \<Rightarrow> filesys \<Rightarrow> string option \<times> filesys"
  cmd_output :: "string \<Rightarrow> string \<Rightarrow> string"
  GOOS :: string
  GOARCH :: string
  now_RFC822 :: string
  GoBlock_String :: "string \<Rightarrow> string"
  TMPL_SERVER_GO :: "string option"
  TMPL_CLIENT_GO :: "string option"

record world =
  fs :: filesys
  trace :: "event list"

definition emit :: "event \<Rightarrow> world \<Rightarrow> world" where
  "emit e w = w\<lparr>trace := trace w @ [e]\<rparr>"

definition set_mode :: "FileMode \<Rightarrow> node \<Rightarrow> node" where
  "set_mode m n = (case n of DirNode _ \<Rightarrow> DirNode m | FileNode _ c \<Rightarrow> FileNode m c)"

definition os_Mkdir :: "env \<Rightarrow> string \<Rightarrow> FileMode \<Rightarrow> world \<Rightarrow> bool \<times> world" where
  "os_Mkdir E name perm w =
     (let ok = (\<not> fault E (Mkdir name perm) \<and> fs w name = None);
          w' = (if ok then w\<lparr>fs := (fs w)(name \<mapsto> DirNode (perm AND NOT (umask E)))\<rparr> else w)
      in (ok, emit (Sys (Mkdir name perm) ok) w'))"

definition os_Chmod :: "env \<Rightarrow> string \<Rightarrow> FileMode \<Rightarrow> world \<Rightarrow> bool \<times> world" where
  "os_Chmod E name perm w =
     (case (if fault E (Chmod name perm) then None else fs w name) of
        None \<Rightarrow> (False, emit (Sys (Chmod name perm) False) w)
      | Some n \<Rightarrow>
          (True, emit (Sys (Chmod name perm) True) (w\<lparr>fs := (fs w)(name \<mapsto> set_mode perm n)\<rparr>)))"

text \<open>
  Opening with \<open>O_CREATE|O_TRUNC\<close> and mode \<open>0666\<close> (\<open>os.Create\<close>, and the \<open>OpenFile\<close>
  calls of \<open>Cert2Lang\<close>): a new empty file, or the existing file emptied; a directory
  cannot be opened for writing.
\<close>

definition open_trunc :: "env \<Rightarrow> syscall \<Rightarrow> string \<Rightarrow> world \<Rightarrow> bool \<times> world" where
  "open_trunc E c name w =
     (if fault E c then (False, emit (Sys c False) w)
      else (case fs w name of
              None \<Rightarrow>
                (True, emit (Sys c True)
                   (w\<lparr>fs := (fs w)(name \<mapsto> FileNode (perm_0666 AND NOT (umask E)) [])\<rparr>))
            | Some (FileNode m content) \<Rightarrow>
                (True, emit (Sys c True) (w\<lparr>fs := (fs w)(name \<mapsto> FileNode m [])\<rparr>))
            | Some (DirNode m) \<Rightarrow> (False, emit (Sys c False) w)))"

definition os_Create :: "env \<Rightarrow> string \<Rightarrow> world \<Rightarrow> bool \<times> world" where
  "os_Create E name w = open_trunc E (Create name) name w"

definition os_OpenFile :: "env \<Rightarrow> string \<Rightarrow> world \<Rightarrow> bool \<times> world" where
  "os_OpenFile E name w = open_trunc E (OpenFile name) name w"

text \<open>Writing to the open file \<open>name\<close>: the bytes are appended.\<close>

definition append_file :: "env \<Rightarrow> syscall \<Rightarrow> string \<Rightarrow> string \<Rightarrow> world \<Rightarrow> bool \<times> world" where
  "append_file E c name bytes w =
     (if fault E c then (False, emit (Sys c False) w)
      else (case fs w name of
              Some (FileNode m content) \<Rightarrow>
                (True, emit (Sys c True) (w\<lparr>fs := (fs w)(name \<mapsto> FileNode m (content @ bytes))\<rparr>))
            | _ \<Rightarrow> (False, emit (Sys c False) w)))"

definition file_Write :: "env \<Rightarrow> string \<Rightarrow> string \<Rightarrow> world \<Rightarrow> bool \<times> world" where
  "file_Write E name bytes w = append_file E (Write name bytes) name bytes w"

definition tmpl_Execute :: "env \<Rightarrow> string \<Rightarrow> string \<Rightarrow> world \<Rightarrow> bool \<times> world" where
  "tmpl_Execute E name bytes w = append_file E (Execute name) name bytes w"

definition file_Close :: "env \<Rightarrow> string \<Rightarrow> world \<Rightarrow> bool \<times> world" where
  "file_Close E name w =
     (let ok = \<not> fault E (Close name) in (ok, emit (Sys (Close name) ok) w))"

datatype stat_result = StatOk | StatNotExist | StatError

definition os_Stat :: "env \<Rightarrow> string \<Rightarrow> world \<Rightarrow> stat_result \<times> world" where
  "os_Stat E name w =
     (if fault E (Stat name) then (StatError, emit (Sys (Stat name) False) w)
      else if fs w name = None then (StatNotExist, emit (Sys (Stat name) False) w)
      else (StatOk, emit (Sys (Stat name) True) w))"

definition ioutil_ReadFile :: "env \<Rightarrow> string \<Rightarrow> world \<Rightarrow> string option \<times> world" where
  "ioutil_ReadFile E name w =
     (case (if fault E (ReadFile name) then None else fs w name) of
        Some (FileNode m content) \<Rightarrow> (Some content, emit (Sys (ReadFile name) True) w)
      | _ \<Rightarrow> (None, emit (Sys (ReadFile name) False) w))"

definition os_Hostname :: "env \<Rightarrow> world \<Rightarrow> string option \<times> world" where
  "os_Hostname E w =
     (if fault E Hostname then (None, emit (Sys Hostname False) w)
      else (Some (hostname E), emit (Sys Hostname True) w))"

definition build_Import :: "env \<Rightarrow> string \<Rightarrow> world \<Rightarrow> string option \<times> world" where
  "build_Import E path w =
     (if fault E (Import path) then (None, emit (Sys (Import path) False) w)
      else (Some (pkg_dir E), emit (Sys (Import path) True) w))"

definition template_ParseFiles :: "env \<Rightarrow> string \<Rightarrow> world \<Rightarrow> string option \<times> world" where
  "template_ParseFiles E name w =
     (case (if fault E (ParseFiles name) then None else fs w name) of
        Some (FileNode m content) \<Rightarrow> (Some content, emit (Sys (ParseFiles name) True) w)
      | _ \<Rightarrow> (None, emit (Sys (ParseFiles name) False) w))"

definition exec_Output :: "env \<Rightarrow> string \<Rightarrow> string \<Rightarrow> world \<Rightarrow> string option \<times> world" where
  "exec_Output E cmd a w =
     (if fault E (CmdOutput cmd a) then (None, emit (Sys (CmdOutput cmd a) False) w)
      else (Some (cmd_output E cmd a), emit (Sys (CmdOutput cmd a) True) w))"

text \<open>A call of an external function: the event, then what the environment says.\<close>

definition call_extern :: "env \<Rightarrow> event \<Rightarrow> call \<Rightarrow> world \<Rightarrow> string option \<times> world" where
  "call_extern E e c w =
     (case extern E c (fs w) of (r, fs') \<Rightarrow> (r, (emit e w)\<lparr>fs := fs'\<rparr>))"

definition do_call :: "env \<Rightarrow> call \<Rightarrow> world \<Rightarrow> string option \<times> world" where
  "do_call E c w = call_extern E (Call c) c w"

text \<open>
  \<open>filepath.Glob\<close>. The error is \<open>ErrBadPattern\<close>. \<open>glob\<close> adds to \<open>matches\<close> the
  entries of \<open>dir\<close> that match, each joined with \<open>dir\<close>; a directory that cannot be read
  adds nothing.
\<close>

definition Match :: "env \<Rightarrow> string \<Rightarrow> string \<Rightarrow> bool" where
  "Match E pattern name =
     (if pattern \<noteq> [] \<and> hd pattern = CHR ''*'' \<and> \<not> hasMeta (tl pattern)
      then Match_star (tl pattern) name
      else match_other E pattern name)"

definition glob :: "env \<Rightarrow> string \<Rightarrow> string \<Rightarrow> string list \<Rightarrow> string list" where
  "glob E dir pattern matches =
     (case readdir E dir of
        None \<Rightarrow> matches
      | Some names \<Rightarrow> matches @ map (\<lambda>n. Join [dir, n]) (filter (Match E pattern) names))"

definition filepath_Glob :: "env \<Rightarrow> string \<Rightarrow> world \<Rightarrow> string list option \<times> world" where
  "filepath_Glob E pattern w =
     (if fault E (GlobPattern pattern) then (None, emit (Sys (GlobPattern pattern) False) w)
      else (Some
              (if \<not> hasMeta pattern then (if fs w pattern = None then [] else [pattern])
               else (case Split pattern of
                       (dir0, file) \<Rightarrow>
                         (let dir = cleanGlobPath dir0
                          in if \<not> hasMeta dir then glob E dir file []
                             else foldl (\<lambda>m d. glob E d file m) [] (glob_dirs E dir)))),
            emit (Sys (GlobPattern pattern) True) w))"

section \<open>The program\<close>

text \<open>
  \<open>printCert\<close> prints the base name of each path, a tab between two of them and a
  newline at the end; nothing for no path.
\<close>

fun printCert_from :: "nat \<Rightarrow> string list \<Rightarrow> event list" where
  "printCert_from i [] = [Stdout (Fmt [] [Str [CHR 0x0A]])]"
| "printCert_from i (v # vs) =
     (if i \<noteq> 0 then [Stdout (Fmt [] [Str [CHR 0x09]])] else [])
     @ [Stdout (Fmt [] [Str (Base v)])] @ printCert_from (Suc i) vs"

definition printCert :: "string list \<Rightarrow> world \<Rightarrow> world" where
  "printCert cert w =
     (if length cert = 0 then w else w\<lparr>trace := trace w @ printCert_from 0 cert\<rparr>)"

text \<open>
  The loop of \<open>SetupDir\<close> over the five directories: the result is the call that
  failed, if one did.
\<close>

fun mkdir_all :: "env \<Rightarrow> string list \<Rightarrow> world \<Rightarrow> syscall option \<times> world" where
  "mkdir_all E [] w = (None, w)"
| "mkdir_all E (v # vs) w =
     (case os_Mkdir E v perm_0755 w of
        (False, w1) \<Rightarrow> (Some (Mkdir v perm_0755), w1)
      | (True, w1) \<Rightarrow> mkdir_all E vs w1)"

text \<open>
  \<open>SetupDir\<close> creates the directory structure. The result is \<open>None\<close> when the function
  returns and the way the process ended otherwise.
\<close>

definition SetupDir :: "env \<Rightarrow> DirPath \<Rightarrow> FilePath \<Rightarrow> world \<Rightarrow> outcome option \<times> world" where
  "SetupDir E D Fi w =
    (case mkdir_all E [Dir_Root D, Dir_Cert D, Dir_NewCert D, Dir_Key D, Dir_Revok D] w of
       (Some c, w1) \<Rightarrow> (Some (Fatal (Fmt [] [Err c])), w1)
     | (None, w1) \<Rightarrow>
    (case os_Chmod E (Dir_Key D) perm_0710 w1 of
       (False, w2) \<Rightarrow> (Some (Fatal (Fmt [] [Err (Chmod (Dir_Key D) perm_0710)])), w2)
     | (True, w2) \<Rightarrow>
    (case os_Create E (File_Index Fi) w2 of
       (False, w3) \<Rightarrow> (Some (Fatal (Fmt [] [Err (Create (File_Index Fi))])), w3)
     | (True, w3) \<Rightarrow>
    (case file_Close E (File_Index Fi) w3 of (_, w4) \<Rightarrow>
    (case os_Create E (File_Serial Fi) w4 of
       (False, w5) \<Rightarrow> (Some (Fatal (Fmt [] [Err (Create (File_Serial Fi))])), w5)
     | (True, w5) \<Rightarrow>
    (case file_Write E (File_Serial Fi) [CHR ''0'', CHR ''1'', CHR 0x0A] w5 of (written, w6) \<Rightarrow>
    (case file_Close E (File_Serial Fi) w6 of (_, w7) \<Rightarrow>
    if \<not> written
    then (Some (Fatal (Fmt [] [Err (Write (File_Serial Fi) [CHR ''0'', CHR ''1'', CHR 0x0A])])), w7)
    else
    (case os_Hostname E w7 of
       (None, w8) \<Rightarrow>
         (Some (Fatal (Fmt (''Could not get hostname: %s'' @ [CHR 0x0A, CHR 0x0A]
                            @ ''You may want to fix your '' @ [CHR 0x27] @ ''/etc/hosts''
                            @ [CHR 0x27] @ '' and/or DNS setup'')
                        [Err Hostname])), w8)
     | (Some host, w8) \<Rightarrow>
    (case build_Import E DIR_CONFIG w8 of
       (None, w9) \<Rightarrow>
         (Some (Fatal (Fmt [] [Str (''Data directory not found'' @ [CHR 0x0A]),
                                Err (Import DIR_CONFIG)])), w9)
     | (Some pkgDir, w9) \<Rightarrow>
    (let configTemplate = Join [pkgDir, FILE_CONFIG @ ''.tmpl''] in
    (case os_Stat E configTemplate w9 of
       (StatNotExist, w10) \<Rightarrow>
         (Some (Fatal (Fmt ''Configuration template not found: %q'' [Str configTemplate])), w10)
     | (_, w10) \<Rightarrow>
    (case template_ParseFiles E configTemplate w10 of
       (None, w11) \<Rightarrow>
         (Some (Fatal (Fmt [] [Str ''Parsing error in configuration: '',
                                Err (ParseFiles configTemplate)])), w11)
     | (Some tmpl, w11) \<Rightarrow>
    (case os_Create E (File_Config Fi) w11 of
       (False, w12) \<Rightarrow> (Some (Fatal (Fmt [] [Err (Create (File_Config Fi))])), w12)
     | (True, w12) \<Rightarrow>
    (case tmpl_Execute E (File_Config Fi)
            (render E tmpl [Dir_Root D, host, ''IP.1 = 127.0.0.1'']) w12 of (executed, w13) \<Rightarrow>
    (case file_Close E (File_Config Fi) w13 of (_, w14) \<Rightarrow>
    if \<not> executed then (Some (Fatal (Fmt [] [Err (Execute (File_Config Fi))])), w14)
    else
    (case os_Chmod E (File_Config Fi) perm_0600 w14 of (changed, w15) \<Rightarrow>
    (let w16 = (if \<not> changed
                then emit (Stderr (Fmt [] [Err (Chmod (File_Config Fi) perm_0600)])) w15
                else w15)
     in (None, emit (Stdout (Fmt (''* Directory structure created in %q'' @ [CHR 0x0A])
                              [Str (Dir_Root D)])) w16))))))))))))))))))"

definition TrimRight :: "string \<Rightarrow> string \<Rightarrow> string" where
  "TrimRight s cutset = rev (dropWhile (\<lambda>c. c \<in> set cutset) (rev s))"

text \<open>
  \<open>Cert2Lang\<close> creates the two Go files. \<open>template.Must\<close> panics when a constant
  template does not parse (\<open>None\<close>); \<open>InfoEndDate\<close> is called while the data of the
  templates is built, after the first file is open.
\<close>

definition Cert2Lang :: "env \<Rightarrow> FilePath \<Rightarrow> string \<Rightarrow> world \<Rightarrow> outcome option \<times> world" where
  "Cert2Lang E Fi cacert w =
    (case ioutil_ReadFile E cacert w of
       (None, w1) \<Rightarrow> (Some (Fatal (Fmt [] [Err (ReadFile cacert)])), w1)
     | (Some CACertBlock, w1) \<Rightarrow>
    (case ioutil_ReadFile E (File_Cert Fi) w1 of
       (None, w2) \<Rightarrow> (Some (Fatal (Fmt [] [Err (ReadFile (File_Cert Fi))])), w2)
     | (Some CertBlock, w2) \<Rightarrow>
    (case ioutil_ReadFile E (File_Key Fi) w2 of
       (None, w3) \<Rightarrow> (Some (Fatal (Fmt [] [Err (ReadFile (File_Key Fi))])), w3)
     | (Some KeyBlock, w3) \<Rightarrow>
    (case exec_Output E (File_Cmd Fi) ''version'' w3 of
       (None, w4) \<Rightarrow> (Some (Fatal (Fmt [] [Err (CmdOutput (File_Cmd Fi) ''version'')])), w4)
     | (Some version, w4) \<Rightarrow>
    (case os_OpenFile E FILE_SERVER_GO w4 of
       (False, w5) \<Rightarrow> (Some (Fatal (Fmt [] [Err (OpenFile FILE_SERVER_GO)])), w5)
     | (True, w5) \<Rightarrow>
    (case TMPL_SERVER_GO E of
       None \<Rightarrow> (Some (Panic ''template.Must''), w5)
     | Some tmpl_server \<Rightarrow>
    (case call_extern E (Nested Fn_Cert2Lang (InfoEndDate (File_Cert Fi)))
            (InfoEndDate (File_Cert Fi)) w5 of
       (None, w6) \<Rightarrow> (Some (ExitIn (InfoEndDate (File_Cert Fi))), w6)
     | (Some endDate, w6) \<Rightarrow>
    (let data = [GOOS E, GOARCH E, TrimRight version [CHR 0x0A], now_RFC822 E,
                 TrimRight endDate [CHR 0x0A], GoBlock_String E CACertBlock,
                 GoBlock_String E CertBlock, GoBlock_String E KeyBlock] in
    (case tmpl_Execute E FILE_SERVER_GO (render E tmpl_server data) w6 of (executed, w7) \<Rightarrow>
    (case file_Close E FILE_SERVER_GO w7 of (_, w8) \<Rightarrow>
    if \<not> executed then (Some (Fatal (Fmt [] [Err (Execute FILE_SERVER_GO)])), w8)
    else
    (case os_OpenFile E FILE_CLIENT_GO w8 of
       (False, w9) \<Rightarrow> (Some (Fatal (Fmt [] [Err (OpenFile FILE_CLIENT_GO)])), w9)
     | (True, w9) \<Rightarrow>
    (case TMPL_CLIENT_GO E of
       None \<Rightarrow> (Some (Panic ''template.Must''), w9)
     | Some tmpl_client \<Rightarrow>
    (case tmpl_Execute E FILE_CLIENT_GO (render E tmpl_client data) w9 of (executed', w10) \<Rightarrow>
    (case file_Close E FILE_CLIENT_GO w10 of (_, w11) \<Rightarrow>
    if \<not> executed' then (Some (Fatal (Fmt [] [Err (Execute FILE_CLIENT_GO)])), w11)
    else (None, w11)))))))))))))))"

subsection \<open>main\<close>

text \<open>
  \<open>main\<close> is given block by block, in the order of the source. A block yields
  \<open>Some\<close> of the way the process ended or \<open>None\<close> when the run goes on.

  Lines 225 to 247, the lists, only without positional argument. \<open>isExit\<close> is set by
  the list of certificates alone; the list of requests exits by itself.
\<close>

definition main_list :: "env \<Rightarrow> Flags \<Rightarrow> DirPath \<Rightarrow> world \<Rightarrow> outcome option \<times> world" where
  "main_list E F D w =
    (if length (Args F) = 0 then
       (case (if IsCertList F then
                (case filepath_Glob E (Join [Dir_Cert D, ''*'' @ EXT_CERT]) w of
                   (None, w1) \<Rightarrow>
                     (Some (Fatal (Fmt [] [Err (GlobPattern (Join [Dir_Cert D, ''*'' @ EXT_CERT]))])),
                      w1)
                 | (Some match, w1) \<Rightarrow> (None, printCert match w1))
              else (None, w)) of
          (Some oc, w2) \<Rightarrow> (Some oc, w2)
        | (None, w2) \<Rightarrow>
            if IsReqList F then
              (case filepath_Glob E (Join [Dir_Root D, ''*'' @ EXT_REQUEST]) w2 of
                 (None, w3) \<Rightarrow>
                   (Some (Fatal (Fmt [] [Err (GlobPattern (Join [Dir_Root D, ''*'' @ EXT_REQUEST]))])),
                    w3)
               | (Some match, w3) \<Rightarrow> (Some (Exit 0), printCert match w3))
            else if IsCertList F then (Some (Exit 0), w2)
            else (None, w2))
     else (None, w))"

text \<open>
  Lines 249 to 285, the absolute paths. The result holds \<open>filename\<close>, the global
  \<open>File\<close> and the flag \<open>CACert\<close> after the switch. Reading \<open>flag.Args()[0]\<close> without
  argument, and \<open>filename[0]\<close> of an empty argument, is a run-time panic.
\<close>

definition main_paths :: "Flags \<Rightarrow> DirPath \<Rightarrow> FilePath \<Rightarrow> outcome + string \<times> FilePath \<times> string" where
  "main_paths F D Fi =
    (if IsRequest F \<or> IsSignReq F \<or> IsCA F then
       (case (if IsCA F then Some NAME_CA
              else (case Args F of [] \<Rightarrow> None | a # _ \<Rightarrow> Some a)) of
          None \<Rightarrow> Inl (Panic ''index out of range'')
        | Some filename \<Rightarrow>
            Inr (filename,
                 Fi\<lparr>File_Cert := Join [Dir_Cert D, filename @ EXT_CERT],
                    File_Key := Join [Dir_Key D, filename @ EXT_KEY],
                    File_Request := Join [Dir_Root D, filename @ EXT_REQUEST]\<rparr>,
                 CACert F))
     else if IsGoLang F then
       (if CACert F = [] \<or> ServerCert F = []
        then Inl (Fatal (Fmt [] [Str ''Missing required parameter in `-ca-cert` or `-server-cert` flag'']))
        else Inr ([],
                  Fi\<lparr>File_Cert := Join [Dir_Cert D, ServerCert F @ EXT_CERT],
                     File_Key := Join [Dir_Key D, ServerCert F @ EXT_KEY]\<rparr>,
                  (if hd (CACert F) \<noteq> CHR ''.'' \<and> hd (CACert F) \<noteq> Separator
                   then Join [Dir_Cert D, CACert F @ EXT_CERT] else CACert F)))
     else if IsNew F then Inr ([], Fi, CACert F)
     else
       (case Args F of
          [] \<Rightarrow> Inl (Panic ''index out of range'')
        | filename # _ \<Rightarrow>
            (case filename of
               [] \<Rightarrow> Inl (Panic ''index out of range'')
             | c # _ \<Rightarrow>
                 Inr ((if c \<noteq> CHR ''.'' \<and> c \<noteq> Separator
                       then (if IsCert F then Join [Dir_Cert D, filename @ EXT_CERT]
                             else if IsKey F then Join [Dir_Key D, filename @ EXT_KEY]
                             else filename)
                       else filename),
                      Fi, CACert F))))"

text \<open>
  Printing what an external function returns, for one call and for the calls of the
  information mode in their order. The result is the call that ended the run, if one
  did.
\<close>

definition print_call :: "env \<Rightarrow> call \<Rightarrow> world \<Rightarrow> call option \<times> world" where
  "print_call E c w =
     (case do_call E c w of
        (None, w1) \<Rightarrow> (Some c, w1)
      | (Some out, w1) \<Rightarrow> (None, emit (Stdout (Fmt [] [Str out])) w1))"

fun print_calls :: "env \<Rightarrow> call list \<Rightarrow> world \<Rightarrow> call option \<times> world" where
  "print_calls E [] w = (None, w)"
| "print_calls E (c # cs) w =
     (case print_call E c w of
        (Some c', w1) \<Rightarrow> (Some c', w1)
      | (None, w1) \<Rightarrow> print_calls E cs w1)"

text \<open>Lines 287 to 324: checking, showing, information. Each ends the run.\<close>

definition main_query :: "env \<Rightarrow> Flags \<Rightarrow> string \<Rightarrow> world \<Rightarrow> outcome option \<times> world" where
  "main_query E F filename w =
    (if IsCheck F then
       (if IsCert F then
          (case do_call E (CheckCert filename) w of
             (None, w1) \<Rightarrow> (Some (ExitIn (CheckCert filename)), w1)
           | (Some _, w1) \<Rightarrow> (Some (Exit 0), w1))
        else if IsKey F then
          (case do_call E (CheckKey filename) w of
             (None, w1) \<Rightarrow> (Some (ExitIn (CheckKey filename)), w1)
           | (Some _, w1) \<Rightarrow> (Some (Exit 0), w1))
        else (Some (Exit 0), w))
     else if IsCat F then
       (case print_calls E
               (if IsCert F then [InfoCert filename]
                else if IsKey F then [InfoKey filename] else []) w of
          (Some c, w1) \<Rightarrow> (Some (ExitIn c), w1)
        | (None, w1) \<Rightarrow> (Some (Exit 0), w1))
     else if IsInfo F then
       (case print_calls E
               (if IsFullInfo F then [InfoFull filename]
                else (if IsEndDate F then [InfoEndDate filename] else [])
                     @ (if IsHash F then [HashInfo filename] else [])
                     @ (if IsIssuer F then [InfoIssuer filename] else [])
                     @ (if IsName F then [InfoName filename] else [])) w of
          (Some c, w1) \<Rightarrow> (Some (ExitIn c), w1)
        | (None, w1) \<Rightarrow> (Some (Exit 0), w1))
     else (None, w))"

text \<open>
  Lines 326 to 345: the request, then the signing. \<open>os.IsNotExist\<close> is asked of the
  error of \<open>os.Stat\<close>: a file that is there and a file that cannot be examined both
  end the run.
\<close>

definition main_request :: "env \<Rightarrow> Flags \<Rightarrow> FilePath \<Rightarrow> world \<Rightarrow> outcome option \<times> world" where
  "main_request E F Fi w =
    (case (if IsRequest F then
             (case os_Stat E (File_Request Fi) w of
                (StatNotExist, w1) \<Rightarrow>
                  (case do_call E (NewRequest Fi (Years F)) w1 of
                     (None, w2) \<Rightarrow> (Some (ExitIn (NewRequest Fi (Years F))), w2)
                   | (Some _, w2) \<Rightarrow> (None, w2))
              | (_, w1) \<Rightarrow>
                  (Some (Fatal (Fmt ''Certificate request already exists: %q''
                                  [Str (File_Request Fi)])), w1))
           else (None, w)) of
       (Some oc, w3) \<Rightarrow> (Some oc, w3)
     | (None, w3) \<Rightarrow>
         if IsSignReq F then
           (case os_Stat E (File_Cert Fi) w3 of
              (StatNotExist, w4) \<Rightarrow>
                (let w5 = (if IsRequest F
                           then emit (Stdout (Fmt [] [Str ([CHR 0x0A] @ ''== Sign'' @ [CHR 0x0A, CHR 0x0A])])) w4
                           else w4)
                 in (case do_call E (SignReq Fi (Years F)) w5 of
                       (None, w6) \<Rightarrow> (Some (ExitIn (SignReq Fi (Years F))), w6)
                     | (Some _, w6) \<Rightarrow> (Some (Exit 0), w6)))
            | (_, w4) \<Rightarrow>
                (Some (Fatal (Fmt ''Certificate already exists: %q'' [Str (File_Cert Fi)])), w4))
         else if IsRequest F then (Some (Exit 0), w3)
         else (None, w3))"

text \<open>The loop of lines 348 to 352: the first file that is there, if one is.\<close>

fun stat_all :: "env \<Rightarrow> string list \<Rightarrow> world \<Rightarrow> string option \<times> world" where
  "stat_all E [] w = (None, w)"
| "stat_all E (v # vs) w =
     (case os_Stat E v w of
        (StatNotExist, w1) \<Rightarrow> stat_all E vs w1
      | (_, w1) \<Rightarrow> (Some v, w1))"

text \<open>Lines 347 to 355: the Go files.\<close>

definition main_golang :: "env \<Rightarrow> Flags \<Rightarrow> FilePath \<Rightarrow> string \<Rightarrow> world \<Rightarrow> outcome option \<times> world" where
  "main_golang E F Fi cacert w =
    (if IsGoLang F then
       (case stat_all E [FILE_SERVER_GO, FILE_CLIENT_GO] w of
          (Some v, w1) \<Rightarrow> (Some (Fatal (Fmt ''File already exists: %q'' [Str v])), w1)
        | (None, w1) \<Rightarrow>
            (case Cert2Lang E Fi cacert (emit (Enter Fn_Cert2Lang) w1) of
               (Some oc, w2) \<Rightarrow> (Some oc, w2)
             | (None, w2) \<Rightarrow> (Some (Exit 0), w2)))
     else (None, w))"

text \<open>
  Lines 357 to 366: the directory structure, then the certification authority, for
  which \<open>Years\<close> is set to 10 before \<open>BuildCA\<close>.
\<close>

definition main_new :: "env \<Rightarrow> Flags \<Rightarrow> DirPath \<Rightarrow> FilePath \<Rightarrow> world \<Rightarrow> outcome \<times> world" where
  "main_new E F D Fi w =
    (case (if IsNew F then
             (case os_Stat E (Dir_Root D) w of
                (StatNotExist, w1) \<Rightarrow> SetupDir E D Fi (emit (Enter Fn_SetupDir) w1)
              | (_, w1) \<Rightarrow>
                  (Some (Fatal (Fmt ''The directory structure exists: %q'' [Str (Dir_Root D)])), w1))
           else (None, w)) of
       (Some oc, w2) \<Rightarrow> (oc, w2)
     | (None, w2) \<Rightarrow>
         if IsCA F then
           (let years = 10
            in (case do_call E (BuildCA Fi years) w2 of
                  (None, w3) \<Rightarrow> (ExitIn (BuildCA Fi years), w3)
                | (Some _, w3) \<Rightarrow> (Return, w3)))
         else (Return, w2))"

definition main :: "env \<Rightarrow> Flags \<Rightarrow> DirPath \<Rightarrow> FilePath \<Rightarrow> world \<Rightarrow> outcome \<times> world" where
  "main E F D Fi0 w =
    (if NFlag F = 0
     then (Exit 2, emit (Stderr (Fmt (''Generate and handle certificates'' @ [CHR 0x0A]) [])) w)
     else
       (case main_list E F D w of
          (Some oc, w1) \<Rightarrow> (oc, w1)
        | (None, w1) \<Rightarrow>
       (case main_paths F D Fi0 of
          Inl oc \<Rightarrow> (oc, w1)
        | Inr (filename, Fi, cacert) \<Rightarrow>
       (case main_query E F filename w1 of
          (Some oc, w2) \<Rightarrow> (oc, w2)
        | (None, w2) \<Rightarrow>
       (case main_request E F Fi w2 of
          (Some oc, w3) \<Rightarrow> (oc, w3)
        | (None, w3) \<Rightarrow>
       (case main_golang E F Fi cacert w3 of
          (Some oc, w4) \<Rightarrow> (oc, w4)
        | (None, w4) \<Rightarrow> main_new E F D Fi w4))))))"

section \<open>Notions used by the properties\<close>

text \<open>
  A real path element is a name that \<open>Clean\<close> keeps: not empty, neither \<open>.\<close> nor \<open>..\<close>,
  without separator. A prefix ends an element when it is empty or ends with the
  separator.
\<close>

definition real_elem :: "string \<Rightarrow> bool" where
  "real_elem n = (n \<noteq> [] \<and> n \<noteq> ''.'' \<and> n \<noteq> ''..'' \<and> (\<forall>c \<in> set n. \<not> IsPathSeparator c))"

definition sep_ended :: "string \<Rightarrow> bool" where
  "sep_ended p = (p = [] \<or> last p = Separator)"

definition has_suffix :: "string \<Rightarrow> string \<Rightarrow> bool" where
  "has_suffix s suf = (length suf \<le> length s \<and> drop (length s - length suf) s = suf)"

text \<open>
  The \<open>File\<close> that the switch of \<open>main\<close> leaves, when it leaves one, and the \<open>File\<close>
  whose three paths are those of a name.
\<close>

definition resolved_File :: "Flags \<Rightarrow> DirPath \<Rightarrow> FilePath \<Rightarrow> FilePath option" where
  "resolved_File F D Fi =
     (case main_paths F D Fi of Inl _ \<Rightarrow> None | Inr (_, Fi', _) \<Rightarrow> Some Fi')"

definition named_File :: "DirPath \<Rightarrow> FilePath \<Rightarrow> string \<Rightarrow> FilePath" where
  "named_File D Fi name =
     Fi\<lparr>File_Cert := Join [Dir_Cert D, name @ ''.crt''],
        File_Key := Join [Dir_Key D, name @ ''.key''],
        File_Request := Join [Dir_Root D, name @ ''.csr'']\<rparr>"

text \<open>A concrete layout: the home directory \<open>/home/u\<close>.\<close>

definition example_Dir :: DirPath where
  "example_Dir = init_Dir ''/home/u''"

definition example_File :: FilePath where
  "example_File = init_File ''/usr/bin/openssl'' example_Dir"

section \<open>Properties\<close>

subsection \<open>The key size flag\<close>

lemma smod_1024_nonneg: "0 \<le> i \<Longrightarrow> i smod 1024 = (i::int) mod 1024"
  by (simp add: smod_int_alt_def sgn_if)

lemma Set_ok_iff:
  "(fst (Set s v) = None) = (\<exists>i. Atoi v = Inr i \<and> 2048 \<le> i \<and> 1024 dvd i)"
  by (auto simp: Set_def smod_1024_nonneg mod_eq_0_iff_dvd split: sum.splits)

lemma Set_all_fail: "\<forall>v \<in> set vs. fst (Set s v) \<noteq> None \<Longrightarrow> Set_all s vs = s"
proof (induction vs)
  case Nil
  then show ?case by simp
next
  case (Cons v vs)
  have "snd (Set s v) = s"
    using Cons.prems by (auto simp: Set_def split: sum.splits if_splits)
  then show ?case using Cons by simp
qed

lemma Atoi_4096: "Atoi ''4096'' = Inr 4096"
  by (simp add: Atoi_def digit_val_def intSize_def)

lemma Atoi_3000: "Atoi ''3000'' = Inr 3000"
  by (simp add: Atoi_def digit_val_def intSize_def)

lemma Atoi_2k: "Atoi ''2k'' = Inl ErrSyntax"
  by (simp add: Atoi_def digit_val_def intSize_def)

text \<open>
  C9. \<open>Set\<close> returns no error exactly when the value parses as an integer that is at
  least 2048 and a multiple of 1024, and then stores that integer; when it returns an
  error the stored size is unchanged, so a size that was never set with success is still
  the default 2048.
\<close>

theorem Set_succeeds_iff_valid_size:
  "(fst (Set s v) = None \<longleftrightarrow> (\<exists>i. Atoi v = Inr i \<and> 2048 \<le> i \<and> 1024 dvd i))
   \<and> (fst (Set s v) = None \<longrightarrow> Atoi v = Inr (snd (Set s v)))
   \<and> (fst (Set s v) \<noteq> None \<longrightarrow> snd (Set s v) = s)
   \<and> ((\<forall>x \<in> set vs. fst (Set RSASize_default x) \<noteq> None)
        \<longrightarrow> Set_all RSASize_default vs = 2048)"
proof (intro conjI impI)
  show "(fst (Set s v) = None) = (\<exists>i. Atoi v = Inr i \<and> 2048 \<le> i \<and> 1024 dvd i)"
    by (rule Set_ok_iff)
  show "Atoi v = Inr (snd (Set s v))" if "fst (Set s v) = None"
    using that by (auto simp: Set_def split: sum.splits if_splits)
  show "snd (Set s v) = s" if "fst (Set s v) \<noteq> None"
    using that by (auto simp: Set_def split: sum.splits if_splits)
  show "Set_all RSASize_default vs = 2048"
    if "\<forall>x \<in> set vs. fst (Set RSASize_default x) \<noteq> None"
    using Set_all_fail [OF that] by (simp add: RSASize_default_def)
qed

theorem Set_succeeds_iff_valid_size_witness:
  "fst (Set 2048 ''4096'') = None \<and> snd (Set 2048 ''4096'') = 4096
   \<and> fst (Set 4096 ''3000'') \<noteq> None \<and> snd (Set 4096 ''3000'') = 4096
   \<and> Set_all RSASize_default [''3000'', ''2k''] = 2048"
proof -
  have ok: "\<exists>i. Atoi ''4096'' = Inr i \<and> 2048 \<le> i \<and> 1024 dvd i"
    by (simp add: Atoi_4096)
  have bad: "\<not> (\<exists>i. Atoi ''3000'' = Inr i \<and> 2048 \<le> i \<and> 1024 dvd i)"
    by (simp add: Atoi_3000)
  have bad2: "\<not> (\<exists>i. Atoi ''2k'' = Inr i \<and> 2048 \<le> i \<and> 1024 dvd i)"
    by (simp add: Atoi_2k)
  have never: "\<forall>x \<in> set [''3000'', ''2k'']. fst (Set RSASize_default x) \<noteq> None"
    using bad bad2 by (simp add: Set_ok_iff)
  have a: "fst (Set 2048 ''4096'') = None" and b: "Atoi ''4096'' = Inr (snd (Set 2048 ''4096''))"
    using Set_succeeds_iff_valid_size [of 2048 "''4096''" "[]"] ok by blast+
  have c: "fst (Set 4096 ''3000'') \<noteq> None" and d: "snd (Set 4096 ''3000'') = 4096"
    using Set_succeeds_iff_valid_size [of 4096 "''3000''" "[]"] bad by blast+
  have e: "Set_all RSASize_default [''3000'', ''2k''] = 2048"
    using Set_succeeds_iff_valid_size [of 2048 "''4096''" "[''3000'', ''2k'']"] never by blast
  from a b c d e show ?thesis by (simp add: Atoi_4096)
qed

subsection \<open>Paths\<close>

declare clean_loop.simps [simp del]

lemma backtrack_ge: "d \<le> w \<Longrightarrow> d \<le> backtrack d buf w"
  by (induction w) auto

lemma cl_skip:
  assumes "IsPathSeparator c \<or> (c = CHR ''.'' \<and> (cs = [] \<or> IsPathSeparator (hd cs)))"
  shows "clean_loop r d out (c # cs) = clean_loop r d out cs"
  using assms by (subst clean_loop.simps(2)) auto

lemma cl_dotdot:
  assumes "\<not> IsPathSeparator c"
    and "\<not> (c = CHR ''.'' \<and> (cs = [] \<or> IsPathSeparator (hd cs)))"
    and "c = CHR ''.'' \<and> hd cs = CHR ''.'' \<and> (tl cs = [] \<or> IsPathSeparator (hd (tl cs)))"
  shows "clean_loop r d out (c # cs) =
     (if length out > d
      then clean_loop r d (take (backtrack d out (length out - 1)) out) (tl cs)
      else if \<not> r
      then clean_loop r (length ((if length out > 0 then out @ [Separator] else out) @ ''..''))
             ((if length out > 0 then out @ [Separator] else out) @ ''..'') (tl cs)
      else clean_loop r d out (tl cs))"
  apply (subst clean_loop.simps(2))
  apply (simp only: assms(1) [THEN Eq_FalseI] assms(2) [THEN Eq_FalseI] assms(3) [THEN Eq_TrueI]
      if_True if_False Let_def)
  done

lemma cl_elem:
  assumes "\<not> IsPathSeparator c"
    and "\<not> (c = CHR ''.'' \<and> (cs = [] \<or> IsPathSeparator (hd cs)))"
    and "\<not> (c = CHR ''.'' \<and> hd cs = CHR ''.'' \<and> (tl cs = [] \<or> IsPathSeparator (hd (tl cs))))"
  shows "clean_loop r d out (c # cs) =
     clean_loop r d
       ((if r \<and> length out \<noteq> 1 \<or> \<not> r \<and> length out \<noteq> 0 then out @ [Separator] else out)
          @ takeWhile (\<lambda>x. \<not> IsPathSeparator x) (c # cs))
       (dropWhile (\<lambda>x. \<not> IsPathSeparator x) (c # cs))"
  apply (subst clean_loop.simps(2))
  apply (simp only: assms(1) [THEN Eq_FalseI] assms(2) [THEN Eq_FalseI] assms(3) [THEN Eq_FalseI]
      if_True if_False Let_def)
  done

text \<open>A real element that is the whole rest of the path is copied to the end of the buffer.\<close>

lemma clean_loop_real:
  assumes "real_elem n" and "rooted \<longrightarrow> out \<noteq> [] \<and> hd out = Separator"
  shows "\<exists>pre. clean_loop rooted dotdot out n = pre @ n \<and> sep_ended pre"
proof -
  obtain c cs where n: "n = c # cs"
    using assms(1) by (cases n) (auto simp: real_elem_def)
  have nosep: "\<forall>x \<in> set (c # cs). \<not> IsPathSeparator x"
    using assms(1) n by (simp add: real_elem_def)
  have c1: "\<not> IsPathSeparator c"
    using nosep by simp
  have c2: "\<not> (c = CHR ''.'' \<and> (cs = [] \<or> IsPathSeparator (hd cs)))"
    using assms(1) n nosep by (cases cs) (auto simp: real_elem_def)
  have c3: "\<not> (c = CHR ''.'' \<and> hd cs = CHR ''.'' \<and> (tl cs = [] \<or> IsPathSeparator (hd (tl cs))))"
  proof (cases cs)
    case Nil
    then show ?thesis using c2 by simp
  next
    case (Cons a as)
    then show ?thesis using assms(1) n nosep by (cases as) (auto simp: real_elem_def)
  qed
  have tw: "takeWhile (\<lambda>x. \<not> IsPathSeparator x) (c # cs) = c # cs"
    using nosep by (simp add: takeWhile_eq_all_conv)
  have dw: "dropWhile (\<lambda>x. \<not> IsPathSeparator x) (c # cs) = []"
    using nosep by (simp add: dropWhile_eq_Nil_conv)
  let ?out' = "(if rooted \<and> length out \<noteq> 1 \<or> \<not> rooted \<and> length out \<noteq> 0
                then out @ [Separator] else out)"
  have "clean_loop rooted dotdot out (c # cs) = ?out' @ (c # cs)"
    by (simp only: cl_elem [OF c1 c2 c3] tw dw clean_loop.simps(1))
  moreover have "sep_ended ?out'"
    using assms(2) by (cases out) (auto simp: sep_ended_def)
  ultimately show ?thesis using n by blast
qed

text \<open>
  The same after any prefix that ends an element: whatever \<open>Clean\<close> does with the
  elements before, the last element, when it is real, ends the result.
\<close>

lemma clean_loop_last_elem:
  assumes "real_elem n"
  shows "sep_ended p \<Longrightarrow> (rooted \<longrightarrow> out \<noteq> [] \<and> hd out = Separator \<and> 1 \<le> dotdot)
     \<Longrightarrow> \<exists>pre. clean_loop rooted dotdot out (p @ n) = pre @ n \<and> sep_ended pre"
proof (induction "length p" arbitrary: p out dotdot rule: less_induct)
  case less
  show ?case
  proof (cases p)
    case Nil
    then show ?thesis
      using clean_loop_real [OF assms, of rooted out dotdot] less.prems by simp
  next
    case (Cons c cs)
    have lastp: "last (c # cs) = Separator"
      using less.prems(1) Cons by (simp add: sep_ended_def)
    have sepin: "Separator \<in> set (c # cs)"
      using lastp last_in_set [of "c # cs"] by auto
    have cs_ended: "sep_ended cs"
      using lastp by (auto simp: sep_ended_def split: if_splits)
    have pn: "p @ n = c # (cs @ n)"
      using Cons by simp
    show ?thesis
    proof (cases "IsPathSeparator c
        \<or> (c = CHR ''.'' \<and> (cs @ n = [] \<or> IsPathSeparator (hd (cs @ n))))")
      case True
      have "clean_loop rooted dotdot out (p @ n) = clean_loop rooted dotdot out (cs @ n)"
        unfolding pn by (rule cl_skip [OF True])
      then show ?thesis
        using less.hyps [of cs out dotdot] cs_ended less.prems(2) Cons by simp
    next
      case False
      then have c1: "\<not> IsPathSeparator c"
        and c2: "\<not> (c = CHR ''.'' \<and> (cs @ n = [] \<or> IsPathSeparator (hd (cs @ n))))"
        by auto
      have csne: "cs \<noteq> []"
        using lastp c1 by (auto simp: IsPathSeparator_def split: if_splits)
      show ?thesis
      proof (cases "c = CHR ''.'' \<and> hd (cs @ n) = CHR ''.''
              \<and> (tl (cs @ n) = [] \<or> IsPathSeparator (hd (tl (cs @ n))))")
        case c3: True
        obtain cs2 where cs2: "cs = CHR ''.'' # cs2"
          using c3 csne by (cases cs) auto
        have cs2ne: "cs2 \<noteq> []"
          using lastp cs2 by (auto simp: Separator_def split: if_splits)
        have cs2_ended: "sep_ended cs2"
          using lastp cs2 cs2ne by (simp add: sep_ended_def)
        have tl_eq: "tl (cs @ n) = cs2 @ n"
          using cs2 by simp
        have len: "length cs2 < length p"
          using Cons cs2 by simp
        note step = cl_dotdot [OF c1 c2 c3, of rooted dotdot out, unfolded tl_eq, folded pn]
        show ?thesis
        proof (cases "length out > dotdot")
          case bt: True
          let ?o = "take (backtrack dotdot out (length out - 1)) out"
          have eq: "clean_loop rooted dotdot out (p @ n) = clean_loop rooted dotdot ?o (cs2 @ n)"
            using step bt by simp
          have inv: "rooted \<longrightarrow> ?o \<noteq> [] \<and> hd ?o = Separator \<and> 1 \<le> dotdot"
          proof
            assume r: rooted
            then have d1: "1 \<le> dotdot" and one: "out \<noteq> []" "hd out = Separator"
              using less.prems(2) by auto
            have "dotdot \<le> backtrack dotdot out (length out - 1)"
              using bt by (intro backtrack_ge) simp
            then have "1 \<le> backtrack dotdot out (length out - 1)"
              using d1 by simp
            then show "?o \<noteq> [] \<and> hd ?o = Separator \<and> 1 \<le> dotdot"
              using one d1 by (cases out) (auto simp: take_Cons')
          qed
          show ?thesis
            using less.hyps [OF len cs2_ended inv] eq by simp
        next
          case nbt: False
          show ?thesis
          proof (cases rooted)
            case True
            then have eq: "clean_loop rooted dotdot out (p @ n)
                = clean_loop rooted dotdot out (cs2 @ n)"
              using step nbt by simp
            show ?thesis
              using less.hyps [OF len cs2_ended less.prems(2)] eq by simp
          next
            case False
            let ?o = "(if length out > 0 then out @ [Separator] else out) @ ''..''"
            have eq: "clean_loop rooted dotdot out (p @ n)
                = clean_loop rooted (length ?o) ?o (cs2 @ n)"
              using step nbt False by simp
            have inv: "rooted \<longrightarrow> ?o \<noteq> [] \<and> hd ?o = Separator \<and> 1 \<le> length ?o"
              using False by simp
            show ?thesis
              using less.hyps [OF len cs2_ended inv] eq by simp
          qed
        qed
      next
        case c3: False
        let ?o = "(if rooted \<and> length out \<noteq> 1 \<or> \<not> rooted \<and> length out \<noteq> 0
                   then out @ [Separator] else out)"
        let ?nonsep = "\<lambda>x. \<not> IsPathSeparator x"
        have tw: "takeWhile ?nonsep (c # cs @ n) = takeWhile ?nonsep (c # cs)"
          using sepin takeWhile_append1 [of Separator "c # cs" ?nonsep n]
          by (simp add: IsPathSeparator_def del: takeWhile.simps)
        have dw: "dropWhile ?nonsep (c # cs @ n) = dropWhile ?nonsep (c # cs) @ n"
          using sepin dropWhile_append1 [of Separator "c # cs" ?nonsep n]
          by (simp add: IsPathSeparator_def del: dropWhile.simps)
        let ?rest = "dropWhile ?nonsep (c # cs)"
        have eq: "clean_loop rooted dotdot out (p @ n)
              = clean_loop rooted dotdot (?o @ takeWhile ?nonsep (c # cs)) (?rest @ n)"
          unfolding pn by (simp only: cl_elem [OF c1 c2 c3] tw dw)
        have len: "length ?rest < length p"
          using Cons c1 length_dropWhile_le [of ?nonsep cs] by simp
        have restne: "?rest \<noteq> []"
          using sepin
          by (auto simp add: dropWhile_eq_Nil_conv IsPathSeparator_def simp del: dropWhile.simps)
        have "last ?rest = last (c # cs)"
          using restne by (metis last_appendR takeWhile_dropWhile_id)
        then have rest_ended: "sep_ended ?rest"
          using lastp by (simp add: sep_ended_def del: dropWhile.simps)
        have inv: "rooted \<longrightarrow> (?o @ takeWhile ?nonsep (c # cs)) \<noteq> []
              \<and> hd (?o @ takeWhile ?nonsep (c # cs)) = Separator \<and> 1 \<le> dotdot"
          using less.prems(2) by (auto simp del: takeWhile.simps)
        show ?thesis
          using less.hyps [OF len rest_ended inv] eq by simp
      qed
    qed
  qed
qed

lemma real_elem_head: "real_elem n \<Longrightarrow> n \<noteq> [] \<and> \<not> IsPathSeparator (hd n) \<and> \<not> IsPathSeparator (last n)"
  by (cases n) (auto simp: real_elem_def)

lemma Clean_last_elem:
  assumes "real_elem n" and "sep_ended p"
  shows "\<exists>pre. Clean (p @ n) = pre @ n \<and> sep_ended pre"
proof -
  have nne: "n \<noteq> []" and hn: "\<not> IsPathSeparator (hd n)"
    using real_elem_head [OF assms(1)] by auto
  show ?thesis
  proof (cases "IsPathSeparator (hd (p @ n))")
    case True
    then obtain p' where p: "p = Separator # p'"
      using hn nne by (cases p) (auto simp: IsPathSeparator_def)
    have "sep_ended p'"
      using assms(2) p by (auto simp: sep_ended_def split: if_splits)
    then obtain pre where pre: "clean_loop True 1 [Separator] (p' @ n) = pre @ n" "sep_ended pre"
      using clean_loop_last_elem [OF assms(1), of p' True "[Separator]" 1] by auto
    have "Clean (p @ n) = pre @ n"
      using pre(1) nne p by (simp add: Clean_def IsPathSeparator_def)
    then show ?thesis using pre(2) by blast
  next
    case False
    obtain pre where pre: "clean_loop False 0 [] (p @ n) = pre @ n" "sep_ended pre"
      using clean_loop_last_elem [OF assms(1) assms(2), of False "[]" 0] by auto
    have "Clean (p @ n) = pre @ n"
      using pre(1) nne False by (simp add: Clean_def)
    then show ?thesis using pre(2) by blast
  qed
qed

lemma Join_last_elem:
  assumes "real_elem n" and "sep_ended p"
  shows "\<exists>pre. Join [d, p @ n] = pre @ n \<and> sep_ended pre"
proof (cases "d = []")
  case True
  have "p @ n \<noteq> []" using real_elem_head [OF assms(1)] by simp
  then have "Join [d, p @ n] = Clean (p @ n)" using True by simp
  then show ?thesis using Clean_last_elem [OF assms] by simp
next
  case False
  have "sep_ended ((d @ [Separator]) @ p)" using assms(2) by (auto simp: sep_ended_def)
  from Clean_last_elem [OF assms(1) this]
  show ?thesis using False by simp
qed

lemma Join_entry: "real_elem n \<Longrightarrow> \<exists>pre. Join [d, n] = pre @ n \<and> sep_ended pre"
  using Join_last_elem [of n "[]" d] by (simp add: sep_ended_def)

text \<open>A name followed by an extension ends with a real element that ends with the extension.\<close>

lemma split_last_elem:
  assumes "3 \<le> length ext" and "\<forall>c \<in> set ext. \<not> IsPathSeparator c"
  shows "\<exists>p seg. name @ ext = p @ (seg @ ext) \<and> sep_ended p \<and> real_elem (seg @ ext)
            \<and> (\<forall>c \<in> set seg. \<not> IsPathSeparator c) \<and> name = p @ seg"
proof -
  let ?nonsep = "\<lambda>x. \<not> IsPathSeparator x"
  let ?seg = "rev (takeWhile ?nonsep (rev name))"
  let ?p = "rev (dropWhile ?nonsep (rev name))"
  have name: "name = ?p @ ?seg"
    by (metis rev_append rev_rev_ident takeWhile_dropWhile_id)
  have segns: "\<forall>c \<in> set ?seg. \<not> IsPathSeparator c"
    using set_takeWhileD by fastforce
  have "dropWhile ?nonsep (rev name) = [] \<or> IsPathSeparator (hd (dropWhile ?nonsep (rev name)))"
    using hd_dropWhile [of ?nonsep "rev name"] by blast
  then have pe: "sep_ended ?p"
    by (auto simp: sep_ended_def IsPathSeparator_def last_rev)
  have len3: "length (?seg @ ext) \<ge> 3" using assms(1) by simp
  have ne1: "?seg @ ext \<noteq> ''.''"
  proof
    assume "?seg @ ext = ''.''"
    then have "length (?seg @ ext) = 1" by simp
    then show False using len3 by simp
  qed
  have ne2: "?seg @ ext \<noteq> ''..''"
  proof
    assume "?seg @ ext = ''..''"
    then have "length (?seg @ ext) = 2" by simp
    then show False using len3 by simp
  qed
  have ne0: "?seg @ ext \<noteq> []" using len3 by auto
  have "real_elem (?seg @ ext)"
    unfolding real_elem_def using ne0 ne1 ne2 segns assms(2) by auto
  then show ?thesis using name pe segns by (metis append.assoc)
qed

lemma Join_has_ext:
  assumes "3 \<le> length ext" and "\<forall>c \<in> set ext. \<not> IsPathSeparator c"
  shows "\<exists>pre. Join [d, name @ ext] = pre @ ext"
proof -
  obtain p seg where ps: "name @ ext = p @ (seg @ ext)" "sep_ended p" "real_elem (seg @ ext)"
    using split_last_elem [OF assms] by blast
  obtain pre where "Join [d, p @ (seg @ ext)] = pre @ (seg @ ext)"
    using Join_last_elem [OF ps(3) ps(2)] by blast
  then show ?thesis using ps(1) by (metis append.assoc)
qed

lemma takeWhile_stop: "\<forall>c \<in> set xs. P c \<Longrightarrow> \<not> P y \<Longrightarrow> takeWhile P (xs @ y # ys) = xs"
  by (induction xs) auto

lemma takeWhile_rev_elem:
  assumes "\<forall>c \<in> set n. \<not> IsPathSeparator c" and "sep_ended pre"
  shows "takeWhile (\<lambda>x. \<not> IsPathSeparator x) (rev n @ rev pre) = rev n"
proof (cases "pre = []")
  case True
  then show ?thesis using assms(1) by (simp add: takeWhile_eq_all_conv)
next
  case False
  then have "last pre = Separator" using assms(2) by (simp add: sep_ended_def)
  then have "pre = butlast pre @ [Separator]" using False by (metis append_butlast_last_id)
  then have r: "rev pre = Separator # rev (butlast pre)"
    by (metis rev.simps(2) rev_append rev_singleton_conv append_Cons append_Nil rev_rev_ident)
  have "takeWhile (\<lambda>x. \<not> IsPathSeparator x) (rev n @ Separator # rev (butlast pre)) = rev n"
    using assms(1) by (intro takeWhile_stop) (auto simp: IsPathSeparator_def)
  then show ?thesis by (simp only: r)
qed

lemma Base_last_elem:
  assumes "real_elem n" and "sep_ended pre"
  shows "Base (pre @ n) = n"
proof -
  let ?nonsep = "\<lambda>x. \<not> IsPathSeparator x"
  have nne: "n \<noteq> []" and ln: "\<not> IsPathSeparator (last n)"
    using real_elem_head [OF assms(1)] by auto
  have ns: "\<forall>c \<in> set n. ?nonsep c" using assms(1) by (simp add: real_elem_def)
  have "n = butlast n @ [last n]" using nne by simp
  then have rn: "rev n = last n # rev (butlast n)" by (metis rev.simps(2) rev_append rev_singleton_conv append_Cons append_Nil rev_rev_ident)
  have d: "dropWhile IsPathSeparator (rev n @ rev pre) = rev n @ rev pre"
    using ln by (subst rn, subst rn) simp
  have t: "takeWhile ?nonsep (rev n @ rev pre) = rev n"
    by (rule takeWhile_rev_elem [OF ns assms(2)])
  show ?thesis
    using nne d t by (simp add: Base_def Let_def)
qed

lemma Split_last_elem:
  assumes "real_elem n" and "sep_ended pre"
  shows "Split (pre @ n) = (pre, n)"
proof -
  let ?nonsep = "\<lambda>x. \<not> IsPathSeparator x"
  have ns: "\<forall>c \<in> set n. ?nonsep c" using assms(1) by (simp add: real_elem_def)
  have t: "takeWhile ?nonsep (rev n @ rev pre) = rev n"
    by (rule takeWhile_rev_elem [OF ns assms(2)])
  show ?thesis using t by (simp add: Split_def Let_def)
qed

lemma Base_Join_entry:
  assumes "real_elem n"
  shows "Base (Join [d, n]) = n"
proof -
  obtain pre where "Join [d, n] = pre @ n" "sep_ended pre"
    using Join_entry [OF assms] by blast
  then show ?thesis using Base_last_elem [OF assms] by simp
qed

subsection \<open>The dispatch of main and the paths of a name\<close>

lemma main_list_skip:
  "Args F \<noteq> [] \<or> (\<not> IsCertList F \<and> \<not> IsReqList F) \<Longrightarrow> main_list E F D w = (None, w)"
  by (auto simp: main_list_def)

lemma main_query_skip:
  "\<not> IsCheck F \<Longrightarrow> \<not> IsCat F \<Longrightarrow> \<not> IsInfo F \<Longrightarrow> main_query E F filename w = (None, w)"
  by (simp add: main_query_def)

lemma main_dispatch:
  assumes "NFlag F \<noteq> 0" and "Args F \<noteq> [] \<or> (\<not> IsCertList F \<and> \<not> IsReqList F)"
    and "\<not> IsCheck F" and "\<not> IsCat F" and "\<not> IsInfo F"
    and "main_paths F D Fi0 = Inr (filename, Fi, cacert)"
  shows "main E F D Fi0 w =
     (case main_request E F Fi w of
        (Some oc, w3) \<Rightarrow> (oc, w3)
      | (None, w3) \<Rightarrow>
          (case main_golang E F Fi cacert w3 of
             (Some oc, w4) \<Rightarrow> (oc, w4)
           | (None, w4) \<Rightarrow> main_new E F D Fi w4))"
  using assms by (simp add: main_def main_list_skip main_query_skip)

lemma main_paths_named:
  assumes "IsRequest F \<or> IsSignReq F \<or> IsCA F" and "IsCA F \<or> Args F \<noteq> []"
  shows "main_paths F D Fi =
     Inr (if IsCA F then NAME_CA else hd (Args F),
          named_File D Fi (if IsCA F then NAME_CA else hd (Args F)), CACert F)"
  using assms
  by (cases "Args F")
     (auto simp: main_paths_def named_File_def EXT_CERT_def EXT_KEY_def EXT_REQUEST_def)

lemma ext_nosep:
  "\<forall>c \<in> set ''.crt''. \<not> IsPathSeparator c" "\<forall>c \<in> set ''.key''. \<not> IsPathSeparator c"
  "\<forall>c \<in> set ''.csr''. \<not> IsPathSeparator c"
  by (simp_all add: IsPathSeparator_def Separator_def)

lemma Join_has_suffix:
  assumes "3 \<le> length ext" and "\<forall>c \<in> set ext. \<not> IsPathSeparator c"
  shows "has_suffix (Join [d, name @ ext]) ext"
proof -
  obtain pre where "Join [d, name @ ext] = pre @ ext"
    using Join_has_ext [OF assms] by blast
  then show ?thesis by (simp add: has_suffix_def)
qed

text \<open>
  C1. With \<open>-req\<close>, \<open>-sign\<close> or \<open>-ca\<close> the switch of \<open>main\<close> resolves the name (the
  first argument, or \<open>ca\<close> with \<open>-ca\<close>) to the certificate path \<open>Join(Dir.Cert, name + ".crt")\<close>,
  the key path \<open>Join(Dir.Key, name + ".key")\<close> and the request path
  \<open>Join(Dir.Root, name + ".csr")\<close>; each path ends with its suffix, and any other run that
  resolves the same name, whatever its other flags and arguments, gets the same three paths.
\<close>

theorem path_resolution_by_suffix:
  assumes "IsRequest F \<or> IsSignReq F \<or> IsCA F" and "IsCA F \<or> Args F \<noteq> []"
    and "name = (if IsCA F then NAME_CA else hd (Args F))"
  shows "main_paths F D Fi = Inr (name, named_File D Fi name, CACert F)
    \<and> File_Cert (named_File D Fi name) = Join [Dir_Cert D, name @ ''.crt'']
    \<and> File_Key (named_File D Fi name) = Join [Dir_Key D, name @ ''.key'']
    \<and> File_Request (named_File D Fi name) = Join [Dir_Root D, name @ ''.csr'']
    \<and> has_suffix (File_Cert (named_File D Fi name)) ''.crt''
    \<and> has_suffix (File_Key (named_File D Fi name)) ''.key''
    \<and> has_suffix (File_Request (named_File D Fi name)) ''.csr''
    \<and> (\<forall>F' Fi'. (IsRequest F' \<or> IsSignReq F' \<or> IsCA F') \<and> (IsCA F' \<or> Args F' \<noteq> [])
           \<and> (if IsCA F' then NAME_CA else hd (Args F')) = name
         \<longrightarrow> (\<exists>R R'. resolved_File F D Fi = Some R \<and> resolved_File F' D Fi' = Some R'
                \<and> File_Cert R' = File_Cert R \<and> File_Key R' = File_Key R
                \<and> File_Request R' = File_Request R))"
proof -
  have a: "main_paths F D Fi = Inr (name, named_File D Fi name, CACert F)"
    using main_paths_named [OF assms(1,2)] assms(3) by simp
  have b: "has_suffix (Join [Dir_Cert D, name @ ''.crt'']) ''.crt''"
    "has_suffix (Join [Dir_Key D, name @ ''.key'']) ''.key''"
    "has_suffix (Join [Dir_Root D, name @ ''.csr'']) ''.csr''"
    by (rule Join_has_suffix; simp add: ext_nosep)+
  have c: "resolved_File F' D Fi' = Some (named_File D Fi' name)"
    if "IsRequest F' \<or> IsSignReq F' \<or> IsCA F'" "IsCA F' \<or> Args F' \<noteq> []"
      "(if IsCA F' then NAME_CA else hd (Args F')) = name" for F' Fi'
    using main_paths_named [OF that(1,2)] that(3) by (simp add: resolved_File_def)
  have d: "resolved_File F D Fi = Some (named_File D Fi name)"
    using a by (simp add: resolved_File_def)
  show ?thesis
    using a b c d by (auto simp: named_File_def)
qed

lemmas path_eval = Clean_def clean_loop.simps IsPathSeparator_def Separator_def Let_def

lemma example_Dir_eval:
  "example_Dir = \<lparr>Dir_Root = ''/home/u/.cert'', Dir_Cert = ''/home/u/.cert/certs'',
     Dir_Key = ''/home/u/.cert/private'', Dir_Revok = ''/home/u/.cert/crl'',
     Dir_NewCert = ''/home/u/.cert/newcerts''\<rparr>"
  by (simp add: example_Dir_def init_Dir_def DIR_ROOT_def path_eval)

lemma example_File_eval:
  "example_File = \<lparr>File_Cmd = ''/usr/bin/openssl'', File_Config = ''/home/u/.cert/openssl.cfg'',
     File_Index = ''/home/u/.cert/index.txt'', File_Serial = ''/home/u/.cert/serial'',
     File_Cert = [], File_Key = [], File_Request = []\<rparr>"
  by (simp add: example_File_def init_File_def example_Dir_eval FILE_CONFIG_def path_eval)

theorem path_resolution_by_suffix_witness:
  "main_paths (default_Flags\<lparr>IsRequest := True, NFlag := 1, Args := [''www'']\<rparr>)
      example_Dir example_File
     = Inr (''www'', named_File example_Dir example_File ''www'', ''ca'')
   \<and> File_Cert (named_File example_Dir example_File ''www'') = ''/home/u/.cert/certs/www.crt''
   \<and> File_Key (named_File example_Dir example_File ''www'') = ''/home/u/.cert/private/www.key''
   \<and> File_Request (named_File example_Dir example_File ''www'') = ''/home/u/.cert/www.csr''
   \<and> has_suffix ''/home/u/.cert/certs/www.crt'' ''.crt''"
proof -
  let ?F = "default_Flags\<lparr>IsRequest := True, NFlag := 1, Args := [''www'']\<rparr>"
  have h1: "IsRequest ?F \<or> IsSignReq ?F \<or> IsCA ?F" by simp
  have h2: "IsCA ?F \<or> Args ?F \<noteq> []" by simp
  have h3: "''www'' = (if IsCA ?F then NAME_CA else hd (Args ?F))"
    by (simp add: default_Flags_def)
  note t = path_resolution_by_suffix [OF h1 h2 h3, of example_Dir example_File]
  have e: "Join [Dir_Cert example_Dir, ''www'' @ ''.crt''] = ''/home/u/.cert/certs/www.crt''"
    "Join [Dir_Key example_Dir, ''www'' @ ''.key''] = ''/home/u/.cert/private/www.key''"
    "Join [Dir_Root example_Dir, ''www'' @ ''.csr''] = ''/home/u/.cert/www.csr''"
    by (simp_all add: example_Dir_eval path_eval)
  have c: "CACert ?F = ''ca''" by (simp add: default_Flags_def NAME_CA_def)
  have r1: "main_paths ?F example_Dir example_File
      = Inr (''www'', named_File example_Dir example_File ''www'', CACert ?F)"
    using t by blast
  have r2: "File_Cert (named_File example_Dir example_File ''www'')
      = Join [Dir_Cert example_Dir, ''www'' @ ''.crt'']"
    using t by blast
  have r3: "File_Key (named_File example_Dir example_File ''www'')
      = Join [Dir_Key example_Dir, ''www'' @ ''.key'']"
    using t by blast
  have r4: "File_Request (named_File example_Dir example_File ''www'')
      = Join [Dir_Root example_Dir, ''www'' @ ''.csr'']"
    using t by blast
  have r5: "has_suffix (File_Cert (named_File example_Dir example_File ''www'')) ''.crt''"
    using t by blast
  show ?thesis
    using r5 by (simp only: r1 c r2 r3 r4 e)
qed

text \<open>
  C3. A mode that needs a name, run without positional argument: \<open>main\<close> reads
  \<open>flag.Args()[0]\<close> and the run ends in a run-time panic, not in a message of
  \<open>log.Fatal\<close>. The file system and the trace are untouched.
\<close>

theorem name_modes_without_argument_panic:
  "main E (default_Flags\<lparr>IsRequest := True, NFlag := 1\<rparr>) D Fi w = (Panic ''index out of range'', w)
   \<and> main E (default_Flags\<lparr>IsSignReq := True, NFlag := 1\<rparr>) D Fi w = (Panic ''index out of range'', w)
   \<and> main E (default_Flags\<lparr>IsCheck := True, IsCert := True, NFlag := 2\<rparr>) D Fi w
       = (Panic ''index out of range'', w)
   \<and> main E (default_Flags\<lparr>IsCat := True, IsCert := True, NFlag := 2\<rparr>) D Fi w
       = (Panic ''index out of range'', w)
   \<and> main E (default_Flags\<lparr>IsInfo := True, IsName := True, NFlag := 2\<rparr>) D Fi w
       = (Panic ''index out of range'', w)"
  by (simp add: main_def main_list_def main_paths_def default_Flags_def)

text \<open>The language mode does check its required parameters, with a message.\<close>

lemma golang_missing_parameter:
  "main E (default_Flags\<lparr>IsGoLang := True, NFlag := 1\<rparr>) D Fi w
    = (Fatal (Fmt [] [Str ''Missing required parameter in `-ca-cert` or `-server-cert` flag'']), w)"
  by (simp add: main_def main_list_def main_paths_def default_Flags_def)

end
